theory Spec2Isabelle
  imports Main "HOL-Library.Word"
begin

section \<open>The jira client: data model\<close>

text \<open>
  Go strings are byte sequences; \<open>string\<close> (a list of 8-bit characters) models them.
  \<open>time.Duration\<close> is a 64-bit integer counting nanoseconds.
\<close>

type_synonym Duration = "64 word"

text \<open>The three sentinel errors of the package, and every error made by the Go
  library (\<open>net/url\<close>, \<open>net/http\<close>), which carries its message.\<close>

datatype error =
    ErrNoResult
  | ErrEmptyResponse
  | ErrUnexpectedStatusCode
  | LibError string

definition is_sentinel :: "error \<Rightarrow> bool" where
  "is_sentinel e = (e = ErrNoResult \<or> e = ErrEmptyResponse \<or> e = ErrUnexpectedStatusCode)"

record Config =
  Server :: string
  Login :: string
  APIToken :: string
  Debug :: bool

text \<open>
  The transport built by \<open>NewClient\<close> is an \<open>http.Transport\<close> with two fields set: the
  proxy function and the dial function of a \<open>net.Dialer\<close>, whose only field set is its
  \<open>Timeout\<close>. The dialer's timeout is a value copied into the dialer when it is built.
\<close>

datatype ProxyFunc = NoProxy | ProxyFromEnvironment

record Transport =
  Proxy :: ProxyFunc
  DialTimeout :: Duration

text \<open>The \<open>transport\<close> field is an interface value: \<open>None\<close> is Go's \<open>nil\<close>.\<close>

record Client =
  transport :: "Transport option"
  server :: string
  login :: string
  token :: string
  timeout :: Duration
  debug :: bool

text \<open>An option receives a pointer to the client and may assign its fields: a function
  from the client before to the client after.\<close>

type_synonym ClientFunc = "Client \<Rightarrow> Client"

text \<open>A call returns, or panics: by calling a nil function, by a method call on a
  nil transport, or because the function called panics.\<close>

datatype 'a result = Returns 'a | Panics

definition baseURLv3 :: string where
  "baseURLv3 = ''/rest/api/3''"

definition baseURLv1 :: string where
  "baseURLv1 = ''/rest/agile/1.0''"

section \<open>Construction\<close>

text \<open>\<open>strings.HasSuffix\<close> and \<open>strings.TrimSuffix\<close> of the Go library.\<close>

definition HasSuffix :: "string \<Rightarrow> string \<Rightarrow> bool" where
  "HasSuffix s suffix =
     (length s \<ge> length suffix \<and> drop (length s - length suffix) s = suffix)"

definition TrimSuffix :: "string \<Rightarrow> string \<Rightarrow> string" where
  "TrimSuffix s suffix =
     (if HasSuffix s suffix then take (length s - length suffix) s else s)"

text \<open>The loop \<open>for _, opt := range opts { opt(&client) }\<close>.\<close>

fun applyOpts :: "ClientFunc list \<Rightarrow> Client \<Rightarrow> Client" where
  "applyOpts [] client = client"
| "applyOpts (opt # opts) client = applyOpts opts (opt client)"

text \<open>
  \<open>NewClient\<close> in its three steps: the struct literal (fields it does not name are zero:
  a nil transport, a zero timeout), the assignment of the transport, whose dialer takes
  the client's timeout as it is at that moment, and the options.
\<close>

definition NewClient :: "Config \<Rightarrow> ClientFunc list \<Rightarrow> Client" where
  "NewClient c opts =
     (let client = \<lparr>transport = None,
                    server = TrimSuffix (Server c) ''/'',
                    login = Login c,
                    token = APIToken c,
                    timeout = 0,
                    debug = Debug c\<rparr>;
          client = client\<lparr>transport :=
                     Some \<lparr>Proxy = ProxyFromEnvironment, DialTimeout = timeout client\<rparr>\<rparr>
      in applyOpts opts client)"

definition WithTimeout :: "Duration \<Rightarrow> ClientFunc" where
  "WithTimeout to = (\<lambda>c. c\<lparr>timeout := to\<rparr>)"

text \<open>
  \<open>NewClient\<close> above takes options that always return, as \<open>WithTimeout\<close> does. A value
  of type \<open>ClientFunc\<close> that a caller passes can be anything the type admits: nil
  (\<open>None\<close>), or a function that, called on the client, returns after assigning fields
  or panics. \<open>returning f\<close> is the value of an option \<open>f\<close> that always returns.
\<close>

type_synonym ClientFuncValue = "(Client \<Rightarrow> Client result) option"

definition returning :: "ClientFunc \<Rightarrow> ClientFuncValue" where
  "returning f = Some (\<lambda>c. Returns (f c))"

text \<open>The loop \<open>for _, opt := range opts { opt(&client) }\<close> on such values: the call
  of a nil function panics, and a panic in an option ends the loop and the call.\<close>

fun callOpts :: "ClientFuncValue list \<Rightarrow> Client \<Rightarrow> Client result" where
  "callOpts [] client = Returns client"
| "callOpts (opt # opts) client =
     (case opt of
        None \<Rightarrow> Panics
      | Some f \<Rightarrow>
          (case f client of
             Panics \<Rightarrow> Panics
           | Returns client' \<Rightarrow> callOpts opts client'))"

text \<open>The outcome of a call of \<open>NewClient\<close>: the same three steps, none of the first two
  can fail, and the function has no error result.\<close>

definition NewClient_outcome :: "Config \<Rightarrow> ClientFuncValue list \<Rightarrow> Client result" where
  "NewClient_outcome c opts =
     (let client = \<lparr>transport = None,
                    server = TrimSuffix (Server c) ''/'',
                    login = Login c,
                    token = APIToken c,
                    timeout = 0,
                    debug = Debug c\<rparr>;
          client = client\<lparr>transport :=
                     Some \<lparr>Proxy = ProxyFromEnvironment, DialTimeout = timeout client\<rparr>\<rparr>
      in callOpts opts client)"

section \<open>Requests\<close>

text \<open>
  A context is the background context or one made by the caller (callers pass a context
  that is not nil, as the library requires). A request holds what
  \<open>request\<close> sets: the method, the URL that \<open>http.NewRequest\<close> parsed, the credentials
  given to \<open>SetBasicAuth\<close> (from which the library writes the Authorization header) and
  the context.
\<close>

datatype Context = Background | Derived nat

record 'u Request =
  Method :: string
  URL :: 'u
  BasicAuth :: "(string \<times> string) option"
  Ctx :: Context

record Response =
  StatusCode :: int
  Body :: string

text \<open>
  What lies outside the program: the URL parser inside \<open>http.NewRequest\<close>, and the round
  trip of a transport, which answers the \<open>n\<close>-th request handed to it with the pair
  (response, error) that Go returns.
\<close>

record 'u env =
  urlParse :: "string \<Rightarrow> error + 'u"
  roundTrip :: "nat \<Rightarrow> Transport \<Rightarrow> 'u Request \<Rightarrow> Response option \<times> error option"

text \<open>
  The state a call can touch: the client its receiver points to, what has been written
  to standard output, and the requests handed to the transport, both oldest first.
\<close>

record 'u world =
  client :: Client
  stdout :: "string list"
  wire :: "'u Request list"

definition NewRequest :: "'u env \<Rightarrow> string \<Rightarrow> string \<Rightarrow> error + 'u Request" where
  "NewRequest E method url =
     (case urlParse E url of
        Inl err \<Rightarrow> Inl err
      | Inr u \<Rightarrow> Inr \<lparr>Method = method, URL = u, BasicAuth = None, Ctx = Background\<rparr>)"

definition SetBasicAuth :: "'u Request \<Rightarrow> string \<Rightarrow> string \<Rightarrow> 'u Request" where
  "SetBasicAuth req username password = req\<lparr>BasicAuth := Some (username, password)\<rparr>"

definition WithContext :: "'u Request \<Rightarrow> Context \<Rightarrow> 'u Request" where
  "WithContext req ctx = req\<lparr>Ctx := ctx\<rparr>"

definition Printf_Requesting :: "string \<Rightarrow> string" where
  "Printf_Requesting endpoint = ''Requesting: '' @ endpoint @ [CHR 0x0A]"

definition request ::
  "'u env \<Rightarrow> Context \<Rightarrow> string \<Rightarrow> 'u world
     \<Rightarrow> (Response option \<times> error option) result \<times> 'u world" where
  "request E ctx endpoint w =
     (let c = client w;
          w = (if debug c then w\<lparr>stdout := stdout w @ [Printf_Requesting endpoint]\<rparr> else w)
      in case NewRequest E ''GET'' endpoint of
           Inl err \<Rightarrow> (Returns (None, Some err), w)
         | Inr req \<Rightarrow>
             (let req = SetBasicAuth req (login c) (token c)
              in case transport c of
                   None \<Rightarrow> (Panics, w)
                 | Some t \<Rightarrow>
                     (Returns (roundTrip E (length (wire w)) t (WithContext req ctx)),
                      w\<lparr>wire := wire w @ [WithContext req ctx]\<rparr>)))"

definition Get ::
  "'u env \<Rightarrow> Context \<Rightarrow> string \<Rightarrow> 'u world
     \<Rightarrow> (Response option \<times> error option) result \<times> 'u world" where
  "Get E ctx path w = request E ctx (server (client w) @ baseURLv3 @ path) w"

definition GetV1 ::
  "'u env \<Rightarrow> Context \<Rightarrow> string \<Rightarrow> 'u world
     \<Rightarrow> (Response option \<times> error option) result \<times> 'u world" where
  "GetV1 E ctx path w = request E ctx (server (client w) @ baseURLv1 @ path) w"

section \<open>Sequences of calls\<close>

text \<open>
  A caller uses one client for several calls, one after the other. A panic ends the
  process, so the calls after it do not run.
\<close>

datatype call = CallGet Context string | CallGetV1 Context string

fun perform ::
  "'u env \<Rightarrow> call \<Rightarrow> 'u world \<Rightarrow> (Response option \<times> error option) result \<times> 'u world" where
  "perform E (CallGet ctx path) w = Get E ctx path w"
| "perform E (CallGetV1 ctx path) w = GetV1 E ctx path w"

fun run :: "'u env \<Rightarrow> call list \<Rightarrow> 'u world \<Rightarrow> 'u world" where
  "run E [] w = w"
| "run E (k # ks) w =
     (case perform E k w of
        (Panics, w') \<Rightarrow> w'
      | (Returns r, w') \<Rightarrow> run E ks w')"

section \<open>The init command\<close>

text \<open>
  \<open>initialize\<close> calls \<open>Generate\<close> of the configuration package and reads the name of the
  configuration file from viper; both are outside this program, so the result of
  \<open>Generate\<close> (\<open>None\<close> is a nil error) and the file name are arguments. The model returns
  what is printed and how the function ends: \<open>Some n\<close> is \<open>os.Exit(n)\<close>, \<open>None\<close> a normal
  return. In the format strings, byte \<open>0x1B\<close> is the escape character and the bytes
  \<open>E2 9C 93\<close> and \<open>E2 9C 97\<close> are the check mark and the ballot cross in UTF-8.
\<close>

datatype config_error = ErrSkip | ConfigError string

definition skipMessage :: "string \<Rightarrow> string" where
  "skipMessage file =
     [CHR 0x0A, CHR 0x1B] @ ''[0;32m'' @ [CHR 0xE2, CHR 0x9C, CHR 0x93, CHR 0x1B]
       @ ''[0m Skipping config generation. Current config: '' @ file @ [CHR 0x0A]"

definition failureMessage :: "string \<Rightarrow> string" where
  "failureMessage file =
     [CHR 0x0A, CHR 0x1B] @ ''[0;31m'' @ [CHR 0xE2, CHR 0x9C, CHR 0x97, CHR 0x1B]
       @ ''[0m Unable to generate configuration: '' @ file @ [CHR 0x0A]"

definition successMessage :: "string \<Rightarrow> string" where
  "successMessage file =
     [CHR 0x0A, CHR 0x1B] @ ''[0;32m'' @ [CHR 0xE2, CHR 0x9C, CHR 0x93, CHR 0x1B]
       @ ''[0m Configuration generated: '' @ file @ [CHR 0x0A]"

definition initialize :: "config_error option \<Rightarrow> string \<Rightarrow> string list \<times> int option" where
  "initialize generate configFileUsed =
     (case generate of
        Some err \<Rightarrow>
          (if err = ErrSkip then [skipMessage configFileUsed]
           else [failureMessage configFileUsed],
           Some 1)
      | None \<Rightarrow> ([successMessage configFileUsed], None))"

section \<open>Measures used in the statements\<close>

text \<open>The number of slashes at the end of a string.\<close>

definition trailing_slashes :: "string \<Rightarrow> nat" where
  "trailing_slashes s = length (takeWhile (\<lambda>x. x = CHR ''/'') (rev s))"

text \<open>The requests handed to the transport between an earlier and a later state.\<close>

definition issued :: "'u world \<Rightarrow> 'u world \<Rightarrow> 'u Request list" where
  "issued w w' = drop (length (wire w)) (wire w')"

text \<open>The green check mark that opens the message of a successful run of \<open>init\<close>, and
  the red cross that opens the message of a failed one.\<close>

definition green_tick :: string where
  "green_tick = [CHR 0x0A, CHR 0x1B] @ ''[0;32m'' @ [CHR 0xE2, CHR 0x9C, CHR 0x93, CHR 0x1B] @ ''[0m''"

definition red_cross :: string where
  "red_cross = [CHR 0x0A, CHR 0x1B] @ ''[0;31m'' @ [CHR 0xE2, CHR 0x9C, CHR 0x97, CHR 0x1B] @ ''[0m''"

text \<open>The configuration and the state used in the examples: the scenario of the
  specification, and a library whose parser accepts every text that has no space and
  whose transport answers every request with status 404.\<close>

definition exampleConfig :: Config where
  "exampleConfig = \<lparr>Server = ''https://example.atlassian.net/'',
                    Login = ''user@example.com'',
                    APIToken = ''tok123'',
                    Debug = True\<rparr>"

definition exampleEnv :: "string env" where
  "exampleEnv = \<lparr>urlParse = (\<lambda>s. if CHR '' '' \<in> set s then Inl (LibError ''invalid URL'') else Inr s),
                 roundTrip = (\<lambda>n t r. (Some \<lparr>StatusCode = 404, Body = ''{}''\<rparr>, None))\<rparr>"

definition exampleWorld :: "string world" where
  "exampleWorld = \<lparr>client = NewClient exampleConfig [], stdout = [], wire = []\<rparr>"

section \<open>Construction: lemmas\<close>

lemma TrimSuffix_slash_snoc:
  "TrimSuffix (s @ [x]) ''/'' = (if x = CHR ''/'' then s else s @ [x])"
  by (simp add: TrimSuffix_def HasSuffix_def)

lemma TrimSuffix_slash_Nil: "TrimSuffix [] ''/'' = []"
  by (simp add: TrimSuffix_def HasSuffix_def)

lemma trailing_slashes_TrimSuffix:
  "trailing_slashes (TrimSuffix s ''/'') = trailing_slashes s - 1"
proof (cases s rule: rev_cases)
  case Nil
  then show ?thesis by (simp add: TrimSuffix_slash_Nil trailing_slashes_def)
next
  case (snoc xs x)
  then show ?thesis by (simp add: TrimSuffix_slash_snoc trailing_slashes_def)
qed

lemma applyOpts_append: "applyOpts (xs @ ys) cl = applyOpts ys (applyOpts xs cl)"
  by (induction xs arbitrary: cl) simp_all

lemma applyOpts_WithTimeout_server [simp]:
  "server (applyOpts (map WithTimeout ds) cl) = server cl"
  by (induction ds arbitrary: cl) (simp_all add: WithTimeout_def)

lemma applyOpts_WithTimeout_transport [simp]:
  "transport (applyOpts (map WithTimeout ds) cl) = transport cl"
  by (induction ds arbitrary: cl) (simp_all add: WithTimeout_def)

lemma applyOpts_snoc: "applyOpts (opts @ [opt]) cl = opt (applyOpts opts cl)"
  by (simp add: applyOpts_append)

lemma applyOpts_foldl: "applyOpts opts cl = foldl (\<lambda>cl opt. opt cl) cl opts"
  by (induction opts arbitrary: cl) simp_all

lemma NewClient_Nil:
  "NewClient c [] =
     \<lparr>transport = Some \<lparr>Proxy = ProxyFromEnvironment, DialTimeout = 0\<rparr>,
      server = TrimSuffix (Server c) ''/'',
      login = Login c,
      token = APIToken c,
      timeout = 0,
      debug = Debug c\<rparr>"
  by (simp add: NewClient_def)

lemma NewClient_applyOpts: "NewClient c opts = applyOpts opts (NewClient c [])"
  by (simp add: NewClient_def)

lemma callOpts_returns:
  assumes "\<forall>opt \<in> set opts. \<exists>f. opt = Some f \<and> (\<forall>cl. f cl \<noteq> Panics)"
  shows "\<exists>cl'. callOpts opts cl = Returns cl'"
  using assms
proof (induction opts arbitrary: cl)
  case Nil
  show ?case by simp
next
  case (Cons opt opts)
  from Cons.prems obtain f where f: "opt = Some f" "\<forall>cl. f cl \<noteq> Panics"
    by auto
  then obtain cl1 where cl1: "f cl = Returns cl1"
    by (cases "f cl") auto
  from Cons.prems have "\<forall>opt \<in> set opts. \<exists>f. opt = Some f \<and> (\<forall>cl. f cl \<noteq> Panics)"
    by simp
  from Cons.IH [OF this, of cl1] f cl1 show ?case by simp
qed

lemma callOpts_returning: "callOpts (map returning fs) cl = Returns (applyOpts fs cl)"
  by (induction fs arbitrary: cl) (simp_all add: returning_def)

section \<open>Construction: the claims\<close>

text \<open>
  C1, as stated, fails: for the server \<open>https://example.atlassian.net//\<close>, which ends in
  two slashes, the constructed client's server field is \<open>https://example.atlassian.net/\<close>;
  it still ends in a slash, and the URL of \<open>Get\<close> has a double slash where the version
  prefix is appended.
\<close>

theorem NewClient_two_slashes_counterexample:
  "server (NewClient \<lparr>Server = ''https://example.atlassian.net//'', Login = ''user@example.com'',
                      APIToken = ''tok123'', Debug = False\<rparr> [])
     = ''https://example.atlassian.net/''
   \<and> trailing_slashes
        (server (NewClient \<lparr>Server = ''https://example.atlassian.net//'',
                            Login = ''user@example.com'', APIToken = ''tok123'',
                            Debug = False\<rparr> [])) \<noteq> 0
   \<and> server (NewClient \<lparr>Server = ''https://example.atlassian.net//'',
                        Login = ''user@example.com'', APIToken = ''tok123'',
                        Debug = False\<rparr> []) @ baseURLv3
     = ''https://example.atlassian.net//rest/api/3''"
  by (simp add: NewClient_Nil TrimSuffix_def HasSuffix_def trailing_slashes_def baseURLv3_def)

text \<open>
  C1 (amended): \<open>NewClient\<close> removes exactly one trailing slash. For every configuration,
  with any list of \<open>WithTimeout\<close> options, the server field of the constructed client has
  one trailing slash fewer than the configured server (none, when that has none); so it
  has no trailing slash exactly when the configured server ends in at most one slash.
\<close>

theorem NewClient_trims_one_slash:
  "trailing_slashes (server (NewClient c (map WithTimeout ds)))
     = trailing_slashes (Server c) - 1
   \<and> (trailing_slashes (server (NewClient c (map WithTimeout ds))) = 0)
     = (trailing_slashes (Server c) \<le> 1)"
proof -
  have "server (NewClient c (map WithTimeout ds)) = TrimSuffix (Server c) ''/''"
    by (simp add: NewClient_applyOpts [of c "map WithTimeout ds"] NewClient_Nil)
  then have "trailing_slashes (server (NewClient c (map WithTimeout ds)))
               = trailing_slashes (Server c) - 1"
    by (simp add: trailing_slashes_TrimSuffix)
  then show ?thesis by auto
qed

text \<open>
  C2: the code at \<open>NewClient(config, WithTimeout(5 * time.Second))\<close>. The option sets the
  client's timeout field to five seconds, but the dialer of the transport was built
  before the options ran and keeps the timeout zero.
\<close>

theorem WithTimeout_does_not_reach_dialer:
  "transport (NewClient exampleConfig [WithTimeout 5000000000])
     = Some \<lparr>Proxy = ProxyFromEnvironment, DialTimeout = 0\<rparr>
   \<and> timeout (NewClient exampleConfig [WithTimeout 5000000000]) = 5000000000
   \<and> transport (NewClient exampleConfig [])
     = Some \<lparr>Proxy = ProxyFromEnvironment, DialTimeout = 0\<rparr>"
  by (simp add: NewClient_def WithTimeout_def)

text \<open>
  C6, as stated, fails: a list of options may hold a nil function, and \<open>NewClient\<close> calls
  each option it is given; with the option list \<open>[nil]\<close> the call panics and returns no
  client.
\<close>

theorem NewClient_nil_option_counterexample:
  "NewClient_outcome exampleConfig [None] = Panics"
  by (simp add: NewClient_outcome_def)

text \<open>
  C6 (amended): construction fails only through an option. For every configuration,
  malformed server and empty credentials included, and every list of options none of
  which is nil or panics, \<open>NewClient\<close> returns a client; for options that always return
  it is the client that \<open>NewClient\<close> computes.
\<close>

theorem NewClient_returns_unless_option_fails:
  assumes "\<forall>opt \<in> set opts. \<exists>f. opt = Some f \<and> (\<forall>cl. f cl \<noteq> Panics)"
  shows "(\<exists>cl. NewClient_outcome c opts = Returns cl)
         \<and> NewClient_outcome c (map returning fs) = Returns (NewClient c fs)"
proof -
  have "\<exists>cl. NewClient_outcome c opts = Returns cl"
    unfolding NewClient_outcome_def Let_def using assms by (rule callOpts_returns)
  moreover have "NewClient_outcome c (map returning fs) = Returns (NewClient c fs)"
    by (simp add: NewClient_outcome_def NewClient_def callOpts_returning)
  ultimately show ?thesis by simp
qed

theorem NewClient_returns_unless_option_fails_witness:
  "NewClient_outcome \<lparr>Server = ''not a url//'', Login = [], APIToken = [], Debug = False\<rparr>
       [returning (WithTimeout 5000000000)]
     = Returns \<lparr>transport = Some \<lparr>Proxy = ProxyFromEnvironment, DialTimeout = 0\<rparr>,
                server = ''not a url/'',
                login = [],
                token = [],
                timeout = 5000000000,
                debug = False\<rparr>
   \<and> (\<exists>cl. NewClient_outcome
               \<lparr>Server = ''not a url//'', Login = [], APIToken = [], Debug = False\<rparr>
               [returning (WithTimeout 5000000000)] = Returns cl)"
proof -
  let ?c = "\<lparr>Server = ''not a url//'', Login = [], APIToken = [], Debug = False\<rparr>"
  have ok: "\<forall>opt \<in> set [returning (WithTimeout 5000000000)].
              \<exists>f. opt = Some f \<and> (\<forall>cl. f cl \<noteq> Panics)"
    by (simp add: returning_def)
  from NewClient_returns_unless_option_fails [OF ok, of ?c "[WithTimeout 5000000000]"]
  have ex: "\<exists>cl. NewClient_outcome ?c [returning (WithTimeout 5000000000)] = Returns cl"
    and eq: "NewClient_outcome ?c (map returning [WithTimeout 5000000000])
               = Returns (NewClient ?c [WithTimeout 5000000000])"
    by blast+
  have "NewClient ?c [WithTimeout 5000000000]
          = \<lparr>transport = Some \<lparr>Proxy = ProxyFromEnvironment, DialTimeout = 0\<rparr>,
             server = ''not a url/'',
             login = [],
             token = [],
             timeout = 5000000000,
             debug = False\<rparr>"
    by (simp add: NewClient_def WithTimeout_def TrimSuffix_def HasSuffix_def)
  with eq ex show ?thesis by simp
qed

text \<open>
  C7: options are applied in the order given, each to the client its predecessors
  left, and the last \<open>WithTimeout\<close> decides the timeout field: after
  \<open>NewClient(c, WithTimeout(d1), WithTimeout(d2))\<close> the field is \<open>d2\<close>.
\<close>

theorem NewClient_later_option_wins:
  "NewClient c (opts @ [opt]) = opt (NewClient c opts)
   \<and> timeout (NewClient c (opts @ [WithTimeout d])) = d
   \<and> timeout (NewClient c [WithTimeout d1, WithTimeout d2]) = d2"
proof -
  have step: "NewClient c (opts @ [opt]) = opt (NewClient c opts)" for opts opt
    by (simp add: NewClient_applyOpts [of c "opts @ [opt]"] NewClient_applyOpts [of c opts]
        applyOpts_snoc)
  have "timeout (NewClient c (opts @ [WithTimeout d])) = d"
    by (simp add: step WithTimeout_def)
  moreover have "timeout (NewClient c ([WithTimeout d1] @ [WithTimeout d2])) = d2"
    by (simp only: step) (simp add: WithTimeout_def)
  ultimately show ?thesis by (simp add: step)
qed

section \<open>Requests: lemmas\<close>

text \<open>What one run of \<open>request\<close> does to each part of the state, and what it returns.\<close>

lemma request_client: "client (snd (request E ctx endpoint w)) = client w"
  by (simp add: request_def NewRequest_def Let_def split: sum.splits option.splits)

lemma request_stdout:
  "stdout (snd (request E ctx endpoint w))
     = stdout w @ (if debug (client w) then [''Requesting: '' @ endpoint @ [CHR 0x0A]] else [])"
  by (simp add: request_def NewRequest_def Printf_Requesting_def Let_def
      split: sum.splits option.splits)

lemma request_wire:
  "wire (snd (request E ctx endpoint w))
     = wire w @
       (case urlParse E endpoint of
          Inl err \<Rightarrow> []
        | Inr u \<Rightarrow>
            (case transport (client w) of
               None \<Rightarrow> []
             | Some t \<Rightarrow> [\<lparr>Method = ''GET'', URL = u,
                           BasicAuth = Some (login (client w), token (client w)),
                           Ctx = ctx\<rparr>]))"
  by (simp add: request_def NewRequest_def SetBasicAuth_def WithContext_def Let_def
      split: sum.splits option.splits)

lemma request_result:
  "fst (request E ctx endpoint w)
     = (case urlParse E endpoint of
          Inl err \<Rightarrow> Returns (None, Some err)
        | Inr u \<Rightarrow>
            (case transport (client w) of
               None \<Rightarrow> Panics
             | Some t \<Rightarrow>
                 Returns (roundTrip E (length (wire w)) t
                   \<lparr>Method = ''GET'', URL = u,
                    BasicAuth = Some (login (client w), token (client w)),
                    Ctx = ctx\<rparr>)))"
  by (simp add: request_def NewRequest_def SetBasicAuth_def WithContext_def Let_def
      split: sum.splits option.splits)

lemma issued_request:
  "issued w (snd (request E ctx endpoint w))
     = (case urlParse E endpoint of
          Inl err \<Rightarrow> []
        | Inr u \<Rightarrow>
            (case transport (client w) of
               None \<Rightarrow> []
             | Some t \<Rightarrow> [\<lparr>Method = ''GET'', URL = u,
                           BasicAuth = Some (login (client w), token (client w)),
                           Ctx = ctx\<rparr>]))"
  by (simp add: issued_def request_wire)

lemma request_not_sentinel:
  assumes parse: "\<And>s e. urlParse E s = Inl e \<Longrightarrow> \<not> is_sentinel e"
    and trip: "\<And>n t r res e. roundTrip E n t r = (res, Some e) \<Longrightarrow> \<not> is_sentinel e"
    and ret: "fst (request E ctx endpoint w) = Returns (res, Some e)"
  shows "\<not> is_sentinel e"
proof (cases "urlParse E endpoint")
  case (Inl err)
  with ret have "err = e" by (simp add: request_result)
  with Inl parse show ?thesis by blast
next
  case (Inr u)
  show ?thesis
  proof (cases "transport (client w)")
    case None
    with Inr ret show ?thesis by (simp add: request_result)
  next
    case (Some t)
    with Inr ret have "\<exists>r. roundTrip E (length (wire w)) t r = (res, Some e)"
      by (auto simp add: request_result)
    with trip show ?thesis by blast
  qed
qed

lemma request_passes_reply:
  assumes "transport (client w) = Some t"
    and "issued w (snd (request E ctx endpoint w)) = [req]"
  shows "fst (request E ctx endpoint w) = Returns (roundTrip E (length (wire w)) t req)"
  using assms by (cases "urlParse E endpoint") (auto simp add: issued_request request_result)

lemma exampleWorld_client:
  "client exampleWorld =
     \<lparr>transport = Some \<lparr>Proxy = ProxyFromEnvironment, DialTimeout = 0\<rparr>,
      server = ''https://example.atlassian.net'',
      login = ''user@example.com'',
      token = ''tok123'',
      timeout = 0,
      debug = True\<rparr>"
  by (simp add: exampleWorld_def exampleConfig_def NewClient_Nil TrimSuffix_def HasSuffix_def)

lemma exampleEnv_parse_no_sentinel:
  "\<forall>s e. urlParse exampleEnv s = Inl e \<longrightarrow> \<not> is_sentinel e"
  by (auto simp add: exampleEnv_def is_sentinel_def split: if_splits)

lemma exampleEnv_trip_no_sentinel:
  "\<forall>n t r res e. roundTrip exampleEnv n t r = (res, Some e) \<longrightarrow> \<not> is_sentinel e"
  by (simp add: exampleEnv_def)

text \<open>The two scenarios of the specification: the server is configured with one
  trailing slash, and the requested URLs have none before the version prefix.\<close>

lemma scenario_Get:
  "issued exampleWorld (snd (Get exampleEnv Background ''/issue/ABC-1'' exampleWorld))
     = [\<lparr>Method = ''GET'', URL = ''https://example.atlassian.net/rest/api/3/issue/ABC-1'',
         BasicAuth = Some (''user@example.com'', ''tok123''), Ctx = Background\<rparr>]"
  by (simp add: Get_def baseURLv3_def issued_request exampleWorld_client exampleEnv_def)

lemma scenario_GetV1:
  "issued exampleWorld (snd (GetV1 exampleEnv Background ''/board/7/sprint'' exampleWorld))
     = [\<lparr>Method = ''GET'',
         URL = ''https://example.atlassian.net/rest/agile/1.0/board/7/sprint'',
         BasicAuth = Some (''user@example.com'', ''tok123''), Ctx = Background\<rparr>]"
  by (simp add: GetV1_def baseURLv1_def issued_request exampleWorld_client exampleEnv_def)

lemma perform_client: "client (snd (perform E k w)) = client w"
  by (cases k) (simp_all add: Get_def GetV1_def request_client)

section \<open>Requests: the claims\<close>

text \<open>
  C3: for every client and every path \<open>p\<close>, the URL that \<open>Get\<close> requests is the one
  parsed from exactly \<open>server + "/rest/api/3" + p\<close>, and the URL that \<open>GetV1\<close> requests
  is the one parsed from exactly \<open>server + "/rest/agile/1.0" + p\<close>. Each call hands
  one request to the transport; it hands none when the text is not a URL (the call then
  returns the parser's error) or when the client has no transport.
\<close>

theorem Get_requests_versioned_url:
  "map URL (issued w (snd (Get E ctx p w)))
     = (case urlParse E (server (client w) @ ''/rest/api/3'' @ p) of
          Inl err \<Rightarrow> []
        | Inr u \<Rightarrow> (case transport (client w) of None \<Rightarrow> [] | Some t \<Rightarrow> [u]))
   \<and> map URL (issued w (snd (GetV1 E ctx p w)))
     = (case urlParse E (server (client w) @ ''/rest/agile/1.0'' @ p) of
          Inl err \<Rightarrow> []
        | Inr u \<Rightarrow> (case transport (client w) of None \<Rightarrow> [] | Some t \<Rightarrow> [u]))"
  by (simp add: Get_def GetV1_def baseURLv3_def baseURLv1_def issued_request
      split: sum.splits option.splits)

text \<open>
  C4: every request that \<open>Get\<close> or \<open>GetV1\<close> hands to the transport, for every path,
  carries as its Basic authentication credentials exactly the client's login and token;
  for a client made by \<open>NewClient\<close> with \<open>WithTimeout\<close> options these are the login and
  the API token of the configuration.
\<close>

theorem Get_carries_basic_auth:
  assumes "r \<in> set (issued w (snd (Get E ctx p w)))
           \<or> r \<in> set (issued w (snd (GetV1 E ctx p w)))"
  shows "BasicAuth r = Some (login (client w), token (client w))
         \<and> (client w = NewClient cfg (map WithTimeout ds)
              \<longrightarrow> BasicAuth r = Some (Login cfg, APIToken cfg))"
proof -
  have auth: "BasicAuth r = Some (login (client w), token (client w))"
    using assms
    by (auto simp add: Get_def GetV1_def issued_request split: sum.splits option.splits)
  have "login (applyOpts (map WithTimeout ds) cl) = login cl
        \<and> token (applyOpts (map WithTimeout ds) cl) = token cl" for cl
    by (induction ds arbitrary: cl) (simp_all add: WithTimeout_def)
  then have "login (NewClient cfg (map WithTimeout ds)) = Login cfg
             \<and> token (NewClient cfg (map WithTimeout ds)) = APIToken cfg"
    by (simp add: NewClient_applyOpts [of cfg "map WithTimeout ds"] NewClient_Nil)
  with auth show ?thesis by simp
qed

theorem Get_carries_basic_auth_witness:
  "\<lparr>Method = ''GET'', URL = ''https://example.atlassian.net/rest/api/3/issue/ABC-1'',
     BasicAuth = Some (''user@example.com'', ''tok123''), Ctx = Derived 1\<rparr>
     \<in> set (issued exampleWorld (snd (Get exampleEnv (Derived 1) ''/issue/ABC-1'' exampleWorld)))
   \<and> client exampleWorld = NewClient exampleConfig (map WithTimeout [])
   \<and> BasicAuth \<lparr>Method = ''GET'', URL = ''https://example.atlassian.net/rest/api/3/issue/ABC-1'',
                 BasicAuth = Some (''user@example.com'', ''tok123''), Ctx = Derived 1\<rparr>
     = Some (Login exampleConfig, APIToken exampleConfig)"
proof -
  let ?r = "\<lparr>Method = ''GET'', URL = ''https://example.atlassian.net/rest/api/3/issue/ABC-1'',
             BasicAuth = Some (''user@example.com'', ''tok123''), Ctx = Derived 1\<rparr>"
  have sent: "?r \<in> set (issued exampleWorld
                  (snd (Get exampleEnv (Derived 1) ''/issue/ABC-1'' exampleWorld)))"
    by (simp add: Get_def baseURLv3_def issued_request exampleWorld_client exampleEnv_def)
  have made: "client exampleWorld = NewClient exampleConfig (map WithTimeout [])"
    by (simp add: exampleWorld_def)
  from sent have "?r \<in> set (issued exampleWorld
                    (snd (Get exampleEnv (Derived 1) ''/issue/ABC-1'' exampleWorld)))
                  \<or> ?r \<in> set (issued exampleWorld
                    (snd (GetV1 exampleEnv (Derived 1) ''/issue/ABC-1'' exampleWorld)))"
    by (rule disjI1)
  from Get_carries_basic_auth [OF this, of exampleConfig "[]"] made
  have "BasicAuth ?r = Some (Login exampleConfig, APIToken exampleConfig)"
    by blast
  with sent made show ?thesis by blast
qed

text \<open>
  C5: \<open>Get\<close> and \<open>GetV1\<close> classify nothing. Given that the library's URL parser and
  transport never produce one of the three sentinel errors of this package, no call
  returns one; and when a call hands its request to the transport, it returns the
  pair the transport answered, whatever the response's status code.
\<close>

theorem Get_returns_no_sentinel:
  assumes parse: "\<forall>s e. urlParse E s = Inl e \<longrightarrow> \<not> is_sentinel e"
    and trip: "\<forall>n t r res e. roundTrip E n t r = (res, Some e) \<longrightarrow> \<not> is_sentinel e"
  shows "(fst (Get E ctx p w) = Returns (res, Some e) \<longrightarrow> \<not> is_sentinel e)
         \<and> (fst (GetV1 E ctx p w) = Returns (res, Some e) \<longrightarrow> \<not> is_sentinel e)
         \<and> (transport (client w) = Some t \<and> issued w (snd (Get E ctx p w)) = [req]
              \<longrightarrow> fst (Get E ctx p w) = Returns (roundTrip E (length (wire w)) t req))
         \<and> (transport (client w) = Some t \<and> issued w (snd (GetV1 E ctx p w)) = [req]
              \<longrightarrow> fst (GetV1 E ctx p w) = Returns (roundTrip E (length (wire w)) t req))"
proof -
  have none: "\<not> is_sentinel e"
    if "fst (request E ctx endpoint w) = Returns (res, Some e)" for endpoint
  proof (rule request_not_sentinel [where E = E])
    show "\<And>s e. urlParse E s = Inl e \<Longrightarrow> \<not> is_sentinel e"
      using parse by blast
    show "\<And>n t r res e. roundTrip E n t r = (res, Some e) \<Longrightarrow> \<not> is_sentinel e"
      using trip by blast
    show "fst (request E ctx endpoint w) = Returns (res, Some e)"
      by (rule that)
  qed
  have a: "fst (Get E ctx p w) = Returns (res, Some e) \<longrightarrow> \<not> is_sentinel e"
    unfolding Get_def using none by blast
  have b: "fst (GetV1 E ctx p w) = Returns (res, Some e) \<longrightarrow> \<not> is_sentinel e"
    unfolding GetV1_def using none by blast
  have c: "transport (client w) = Some t \<and> issued w (snd (Get E ctx p w)) = [req]
             \<longrightarrow> fst (Get E ctx p w) = Returns (roundTrip E (length (wire w)) t req)"
    unfolding Get_def using request_passes_reply by blast
  have d: "transport (client w) = Some t \<and> issued w (snd (GetV1 E ctx p w)) = [req]
             \<longrightarrow> fst (GetV1 E ctx p w) = Returns (roundTrip E (length (wire w)) t req)"
    unfolding GetV1_def using request_passes_reply by blast
  from a b c d show ?thesis by blast
qed

theorem Get_returns_no_sentinel_witness:
  "fst (Get exampleEnv (Derived 1) ''/issue/ABC-1'' exampleWorld)
     = Returns (Some \<lparr>StatusCode = 404, Body = ''{}''\<rparr>, None)
   \<and> fst (GetV1 exampleEnv (Derived 1) ''/board/7 sprint'' exampleWorld)
     = Returns (None, Some (LibError ''invalid URL''))
   \<and> \<not> is_sentinel (LibError ''invalid URL'')"
proof -
  let ?r = "\<lparr>Method = ''GET'', URL = ''https://example.atlassian.net/rest/api/3/issue/ABC-1'',
             BasicAuth = Some (''user@example.com'', ''tok123''), Ctx = Derived 1\<rparr>"
  let ?t = "\<lparr>Proxy = ProxyFromEnvironment, DialTimeout = 0\<rparr>"
  note no_sentinel = Get_returns_no_sentinel [where E = exampleEnv,
      OF exampleEnv_parse_no_sentinel exampleEnv_trip_no_sentinel]
  have refused: "fst (GetV1 exampleEnv (Derived 1) ''/board/7 sprint'' exampleWorld)
                   = Returns (None, Some (LibError ''invalid URL''))"
    by (simp add: GetV1_def request_result exampleEnv_def)
  with no_sentinel [where ctx = "Derived 1" and p = "''/board/7 sprint''" and w = exampleWorld
      and res = None and e = "LibError ''invalid URL''"]
  have other: "\<not> is_sentinel (LibError ''invalid URL'')"
    by blast
  have has: "transport (client exampleWorld) = Some ?t"
    by (simp add: exampleWorld_client)
  have sent: "issued exampleWorld (snd (Get exampleEnv (Derived 1) ''/issue/ABC-1'' exampleWorld))
                = [?r]"
    by (simp add: Get_def baseURLv3_def issued_request exampleWorld_client exampleEnv_def)
  from no_sentinel [where ctx = "Derived 1" and p = "''/issue/ABC-1''" and w = exampleWorld
      and t = ?t and req = ?r] has sent
  have "fst (Get exampleEnv (Derived 1) ''/issue/ABC-1'' exampleWorld)
          = Returns (roundTrip exampleEnv (length (wire exampleWorld)) ?t ?r)"
    by blast
  then have "fst (Get exampleEnv (Derived 1) ''/issue/ABC-1'' exampleWorld)
               = Returns (Some \<lparr>StatusCode = 404, Body = ''{}''\<rparr>, None)"
    by (simp add: exampleEnv_def)
  with refused other show ?thesis by blast
qed

text \<open>
  C8: a call of \<open>Get\<close> or \<open>GetV1\<close> on a client whose debug flag is true writes one line
  to standard output, \<open>Requesting: \<close> followed by the full URL of the request; on a
  client whose debug flag is false it writes nothing.
\<close>

theorem Get_debug_trace:
  "stdout (snd (Get E ctx p w))
     = stdout w @
       (if debug (client w)
        then [''Requesting: '' @ server (client w) @ ''/rest/api/3'' @ p @ [CHR 0x0A]]
        else [])
   \<and> stdout (snd (GetV1 E ctx p w))
     = stdout w @
       (if debug (client w)
        then [''Requesting: '' @ server (client w) @ ''/rest/agile/1.0'' @ p @ [CHR 0x0A]]
        else [])"
  by (simp add: Get_def GetV1_def baseURLv3_def baseURLv1_def request_stdout)

text \<open>
  C9: no operation assigns a field of the client. After \<open>request\<close>, after \<open>Get\<close>,
  after \<open>GetV1\<close> and after any sequence of calls, the client (its transport, server,
  login, token, timeout and debug fields) is the one the calls found.
\<close>

theorem calls_leave_client_unchanged:
  "client (run E ks w) = client w
   \<and> client (snd (Get E ctx p w)) = client w
   \<and> client (snd (GetV1 E ctx p w)) = client w
   \<and> client (snd (request E ctx endpoint w)) = client w"
proof -
  have "client (run E ks w) = client w"
  proof (induction ks arbitrary: w)
    case Nil
    show ?case by simp
  next
    case (Cons k ks)
    obtain r w' where step: "perform E k w = (r, w')"
      by (cases "perform E k w")
    then have same: "client w' = client w"
      using perform_client [of E k w] by simp
    show ?case
    proof (cases r)
      case (Returns x)
      with step have "run E (k # ks) w = run E ks w'" by simp
      with Cons.IH [of w'] same show ?thesis by simp
    next
      case Panics
      with step have "run E (k # ks) w = w'" by simp
      with same show ?thesis by simp
    qed
  qed
  then show ?thesis
    by (simp add: Get_def GetV1_def request_client)
qed

section \<open>The init command: the claim\<close>

text \<open>
  C10: when \<open>Generate\<close> returns \<open>ErrSkip\<close>, \<open>initialize\<close> prints the skip message, which
  opens with the green check mark of the success message, and then exits with status
  1, the status with which it exits after any other error of \<open>Generate\<close>.
\<close>

theorem initialize_skip_exits_1:
  "initialize (Some ErrSkip) file = ([skipMessage file], Some 1)
   \<and> take (length green_tick) (skipMessage file) = green_tick
   \<and> take (length green_tick) (successMessage file) = green_tick
   \<and> initialize (Some (ConfigError m)) file = ([failureMessage file], Some 1)
   \<and> take (length red_cross) (failureMessage file) = red_cross
   \<and> snd (initialize (Some ErrSkip) file) = snd (initialize (Some (ConfigError m)) file)
   \<and> initialize None file = ([successMessage file], None)"
  by (simp add: initialize_def skipMessage_def successMessage_def failureMessage_def
      green_tick_def red_cross_def)

end
